theory Spec2Isabelle
  imports Main "HOL-Library.Word" "HOL-Library.AList"
begin

unbundle bit_operations_syntax

section \<open>JavaScript strings\<close>

text \<open>
  A JavaScript string is modelled as a \<^typ>\<open>string\<close>: a list of 8-bit characters, read as
  the code units U+0000 to U+00FF. This is the range Node's HTTP parser delivers in header
  values and request lines. \<open>undefined\<close> is \<open>None\<close> of an option type; the empty string and
  \<open>undefined\<close> are both falsy.
\<close>

definition truthy :: "string option \<Rightarrow> bool" where
  "truthy v = (case v of None \<Rightarrow> False | Some s \<Rightarrow> s \<noteq> [])"

text \<open>
  The characters \<open>String.prototype.trim\<close> removes, within U+0000 to U+00FF: TAB, LF, VT, FF,
  CR, SPACE and NO-BREAK SPACE.
\<close>

definition isWhiteSpace :: "char \<Rightarrow> bool" where
  "isWhiteSpace c = (of_char c \<in> {9::nat, 10, 11, 12, 13, 32, 160})"

definition trim :: "string \<Rightarrow> string" where
  "trim s = rev (dropWhile isWhiteSpace (rev (dropWhile isWhiteSpace s)))"

text \<open>
  \<open>toLowerCase\<close>, character by character: the ASCII capitals, and the capitals U+00C0 to
  U+00DE of Latin-1 (U+00D7 is the multiplication sign), move up by 32.
\<close>

definition lowerChar :: "char \<Rightarrow> char" where
  "lowerChar c = (case map_of (zip ''ABCDEFGHIJKLMNOPQRSTUVWXYZ'' ''abcdefghijklmnopqrstuvwxyz'') c of
                    Some d \<Rightarrow> d
                  | None \<Rightarrow>
                      if 192 \<le> (of_char c :: nat) \<and> (of_char c :: nat) \<le> 222 \<and> (of_char c :: nat) \<noteq> 215
                      then char_of ((of_char c :: nat) + 32) else c)"

text \<open>
  \<open>toUpperCase\<close> on ASCII, which is what an HTTP method is made of. (Outside ASCII the
  upper-case forms of some Latin-1 letters leave the range U+0000 to U+00FF, so those
  characters are kept here; the method comparison below is the only use.)
\<close>

definition upperChar :: "char \<Rightarrow> char" where
  "upperChar c = (case map_of (zip ''abcdefghijklmnopqrstuvwxyz'' ''ABCDEFGHIJKLMNOPQRSTUVWXYZ'') c of
                    Some d \<Rightarrow> d | None \<Rightarrow> c)"

definition toLowerCase :: "string \<Rightarrow> string" where
  "toLowerCase s = map lowerChar s"

definition toUpperCase :: "string \<Rightarrow> string" where
  "toUpperCase s = map upperChar s"

definition startsWith :: "string \<Rightarrow> string \<Rightarrow> bool" where
  "startsWith s p = (take (length p) s = p)"

text \<open>\<open>s.indexOf(c)\<close> for a single character; \<open>None\<close> stands for the result \<open>-1\<close>.\<close>

fun indexOf :: "char \<Rightarrow> string \<Rightarrow> nat option" where
  "indexOf c [] = None"
| "indexOf c (x # xs) = (if x = c then Some 0 else map_option Suc (indexOf c xs))"

section \<open>L402 wire format (l402.js)\<close>

definition formatChallenge :: "string \<Rightarrow> string \<Rightarrow> string" where
  "formatChallenge invoice macaroon =
     ''L402 invoice=\"'' @ invoice @ ''\", macaroon=\"'' @ macaroon @ ''\"''"

record l402_creds =
  macaroon :: string
  preimage :: string

definition parseAuthorization :: "string option \<Rightarrow> l402_creds option" where
  "parseAuthorization authHeader =
     (case authHeader of
        None \<Rightarrow> None
      | Some h \<Rightarrow>
          if h = [] then None
          else let trimmed = trim h in
            if \<not> startsWith (toLowerCase trimmed) ''l402 '' then None
            else let credentials = trim (drop 5 trimmed) in
              (case indexOf CHR '':'' credentials of
                 None \<Rightarrow> None
               | Some colonIdx \<Rightarrow>
                   let mac = take colonIdx credentials;
                       pre = drop (colonIdx + 1) credentials
                   in if mac = [] \<or> pre = [] then None
                      else Some \<lparr>macaroon = mac, preimage = pre\<rparr>))"


section \<open>Buffers, hexadecimal and UTF-8 (Node's Buffer)\<close>

text \<open>A \<open>Buffer\<close> is a list of bytes.\<close>

type_synonym byte = "8 word"

text \<open>
  \<open>Buffer.from(s)\<close> and \<open>hmac.update(s)\<close> encode a string as UTF-8: one byte for a code unit
  below U+0080, two bytes for U+0080 to U+00FF.
\<close>

definition utf8Char :: "char \<Rightarrow> byte list" where
  "utf8Char c = (let n = of_char c :: nat
                 in if n < 128 then [of_nat n] else [of_nat (192 + n div 64), of_nat (128 + n mod 64)])"

definition utf8 :: "string \<Rightarrow> byte list" where
  "utf8 s = concat (map utf8Char s)"

text \<open>\<open>buf.toString('hex')\<close> and \<open>digest('hex')\<close>: two lower-case digits per byte.\<close>

definition hexDigit :: "nat \<Rightarrow> char" where
  "hexDigit n = ''0123456789abcdef'' ! n"

definition hexByte :: "byte \<Rightarrow> string" where
  "hexByte b = [hexDigit (unat b div 16), hexDigit (unat b mod 16)]"

definition hexEncode :: "byte list \<Rightarrow> string" where
  "hexEncode bs = concat (map hexByte bs)"

text \<open>
  \<open>Buffer.from(s, 'hex')\<close> decodes pairs of hexadecimal digits of either case, stops at the
  first pair that holds another character, and drops a single trailing digit. It never
  throws on a string.
\<close>

definition unhex :: "char \<Rightarrow> nat option" where
  "unhex c = map_of (zip ''0123456789abcdefABCDEF''
                         [0, 1, 2, 3, 4, 5, 6, 7, 8, 9, 10, 11, 12, 13, 14, 15, 10, 11, 12, 13, 14, 15]) c"

fun hexDecode :: "string \<Rightarrow> byte list" where
  "hexDecode (a # b # rest) =
     (case unhex a of
        None \<Rightarrow> []
      | Some x \<Rightarrow> (case unhex b of
                     None \<Rightarrow> []
                   | Some y \<Rightarrow> of_nat (16 * x + y) # hexDecode rest))"
| "hexDecode _ = []"

text \<open>The exceptions the modelled code can raise, with their messages.\<close>

datatype js_error = Error string | RangeError string | TypeError string

text \<open>
  \<open>crypto.timingSafeEqual(a, b)\<close> throws a \<open>RangeError\<close> when the two buffers differ in
  length, and otherwise tells whether they hold the same bytes.
\<close>

definition timingSafeEqual :: "byte list \<Rightarrow> byte list \<Rightarrow> js_error + bool" where
  "timingSafeEqual a b =
     (if length a \<noteq> length b then Inl (RangeError ''Input buffers must have the same byte length'')
      else Inr (a = b))"

section \<open>SHA-256 and HMAC-SHA256 (Node's crypto)\<close>

text \<open>
  \<open>crypto.createHash('sha256')\<close> and \<open>crypto.createHmac('sha256', key)\<close> are modelled by the
  functions of FIPS 180-4 and RFC 2104. A 32-bit word is a natural number below \<open>2^32\<close>, with
  the wrap-around written out.
\<close>

definition add32 :: "nat \<Rightarrow> nat \<Rightarrow> nat" where
  "add32 x y = (x + y) mod 2 ^ 32"

definition not32 :: "nat \<Rightarrow> nat" where
  "not32 x = 4294967295 - x mod 2 ^ 32"

definition rotr :: "nat \<Rightarrow> nat \<Rightarrow> nat" where
  "rotr n x = x div 2 ^ n + (x mod 2 ^ n) * 2 ^ (32 - n)"

definition shr :: "nat \<Rightarrow> nat \<Rightarrow> nat" where
  "shr n x = x div 2 ^ n"

definition ch :: "nat \<Rightarrow> nat \<Rightarrow> nat \<Rightarrow> nat" where
  "ch x y z = (x AND y) XOR (not32 x AND z)"

definition maj :: "nat \<Rightarrow> nat \<Rightarrow> nat \<Rightarrow> nat" where
  "maj x y z = (x AND y) XOR (x AND z) XOR (y AND z)"

definition bsig0 :: "nat \<Rightarrow> nat" where
  "bsig0 x = rotr 2 x XOR rotr 13 x XOR rotr 22 x"

definition bsig1 :: "nat \<Rightarrow> nat" where
  "bsig1 x = rotr 6 x XOR rotr 11 x XOR rotr 25 x"

definition ssig0 :: "nat \<Rightarrow> nat" where
  "ssig0 x = rotr 7 x XOR rotr 18 x XOR shr 3 x"

definition ssig1 :: "nat \<Rightarrow> nat" where
  "ssig1 x = rotr 17 x XOR rotr 19 x XOR shr 10 x"

type_synonym sha_state = "nat \<times> nat \<times> nat \<times> nat \<times> nat \<times> nat \<times> nat \<times> nat"

text \<open>
  The round constants and the initial hash value of FIPS 180-4 (sections 4.2.2 and 5.3.3),
  written in decimal: the first is \<open>0x428a2f98\<close>, the last \<open>0xc67178f2\<close>.
\<close>

definition sha256_k :: "nat list" where
  "sha256_k = [
    1116352408, 1899447441, 3049323471, 3921009573, 961987163, 1508970993, 2453635748, 2870763221,
    3624381080, 310598401, 607225278, 1426881987, 1925078388, 2162078206, 2614888103, 3248222580,
    3835390401, 4022224774, 264347078, 604807628, 770255983, 1249150122, 1555081692, 1996064986,
    2554220882, 2821834349, 2952996808, 3210313671, 3336571891, 3584528711, 113926993, 338241895,
    666307205, 773529912, 1294757372, 1396182291, 1695183700, 1986661051, 2177026350, 2456956037,
    2730485921, 2820302411, 3259730800, 3345764771, 3516065817, 3600352804, 4094571909, 275423344,
    430227734, 506948616, 659060556, 883997877, 958139571, 1322822218, 1537002063, 1747873779,
    1955562222, 2024104815, 2227730452, 2361852424, 2428436474, 2756734187, 3204031479, 3329325298]"

definition sha256_h0 :: "sha_state" where
  "sha256_h0 = (1779033703, 3144134277, 1013904242, 2773480762,
                1359893119, 2600822924, 528734635, 1541459225)"

text \<open>Big-endian packing of bytes into words and back.\<close>

fun be32 :: "byte list \<Rightarrow> nat list" where
  "be32 (a # b # c # d # rest) =
     (unat a * 16777216 + unat b * 65536 + unat c * 256 + unat d) # be32 rest"
| "be32 _ = []"

definition u32_bytes :: "nat \<Rightarrow> byte list" where
  "u32_bytes w = [of_nat (w div 16777216), of_nat (w div 65536), of_nat (w div 256), of_nat w]"

definition u64_bytes :: "nat \<Rightarrow> byte list" where
  "u64_bytes n = u32_bytes (n div 2 ^ 32) @ u32_bytes n"

text \<open>Padding: a one bit, zeros up to 56 modulo 64 bytes, and the bit length in 64 bits.\<close>

definition sha256_pad :: "byte list \<Rightarrow> byte list" where
  "sha256_pad m = m @ [0x80] @ replicate ((119 - length m mod 64) mod 64) 0 @ u64_bytes (8 * length m)"

text \<open>
  The message schedule is kept as a window of sixteen words: its head is the word of the
  current round, and each round appends the word sixteen places ahead.
\<close>

definition next_word :: "nat list \<Rightarrow> nat" where
  "next_word w = add32 (add32 (ssig1 (w ! 14)) (w ! 9)) (add32 (ssig0 (w ! 1)) (w ! 0))"

definition temp1 :: "nat \<Rightarrow> nat \<Rightarrow> nat \<Rightarrow> nat \<Rightarrow> nat \<Rightarrow> nat \<Rightarrow> nat" where
  "temp1 h e f g k w = add32 (add32 (add32 h (bsig1 e)) (add32 (ch e f g) k)) w"

definition temp2 :: "nat \<Rightarrow> nat \<Rightarrow> nat \<Rightarrow> nat" where
  "temp2 a b c = add32 (bsig0 a) (maj a b c)"

fun shift_in :: "nat \<Rightarrow> nat \<Rightarrow> sha_state \<Rightarrow> sha_state" where
  "shift_in t1 t2 (a, b, c, d, e, f, g, h) = (add32 t1 t2, a, b, c, add32 d t1, e, f, g)"

fun round_step :: "sha_state \<Rightarrow> nat \<Rightarrow> nat \<Rightarrow> sha_state" where
  "round_step (a, b, c, d, e, f, g, h) k w =
     shift_in (temp1 h e f g k w) (temp2 a b c) (a, b, c, d, e, f, g, h)"

fun sha256_rounds :: "sha_state \<Rightarrow> nat list \<Rightarrow> nat list \<Rightarrow> sha_state" where
  "sha256_rounds s w [] = s"
| "sha256_rounds s w (k # ks) = sha256_rounds (round_step s k (w ! 0)) (tl w @ [next_word w]) ks"

fun add_state :: "sha_state \<Rightarrow> sha_state \<Rightarrow> sha_state" where
  "add_state (a, b, c, d, e, f, g, h) (a', b', c', d', e', f', g', h') =
     (add32 a a', add32 b b', add32 c c', add32 d d', add32 e e', add32 f f', add32 g g', add32 h h')"

definition compress :: "sha_state \<Rightarrow> nat list \<Rightarrow> sha_state" where
  "compress hs blk = add_state hs (sha256_rounds hs blk sha256_k)"

fun chunks :: "nat \<Rightarrow> nat list \<Rightarrow> nat list list" where
  "chunks 0 xs = []"
| "chunks (Suc n) xs = take 16 xs # chunks n (drop 16 xs)"

fun state_bytes :: "sha_state \<Rightarrow> byte list" where
  "state_bytes (a, b, c, d, e, f, g, h) = concat (map u32_bytes [a, b, c, d, e, f, g, h])"

definition sha256 :: "byte list \<Rightarrow> byte list" where
  "sha256 m = (let ws = be32 (sha256_pad m)
               in state_bytes (foldl compress sha256_h0 (chunks (length ws div 16) ws)))"

text \<open>
  HMAC with a block of 64 bytes: a longer key is hashed first, the key is filled with zeros
  to the block, and the two passes use the pads \<open>0x36\<close> and \<open>0x5c\<close>.
\<close>

definition hmac_key :: "byte list \<Rightarrow> byte list" where
  "hmac_key k = (let k' = (if length k > 64 then sha256 k else k)
                 in k' @ replicate (64 - length k') 0)"

definition hmac_sha256 :: "byte list \<Rightarrow> byte list \<Rightarrow> byte list" where
  "hmac_sha256 k m =
     sha256 (map (\<lambda>b. b XOR 0x5c) (hmac_key k) @ sha256 (map (\<lambda>b. b XOR 0x36) (hmac_key k) @ m))"


section \<open>Numbers and splitting\<close>

text \<open>
  A template literal prints an integer in decimal, with a minus sign when negative. The
  model covers the integers that a JavaScript number holds exactly (below \<open>2^53\<close> in
  magnitude), which include every Unix time stamp.
\<close>

definition digitChar :: "nat \<Rightarrow> char" where
  "digitChar n = ''0123456789'' ! n"

fun showNat :: "nat \<Rightarrow> string" where
  "showNat n = (if n < 10 then [digitChar n] else showNat (n div 10) @ [digitChar (n mod 10)])"

definition showInt :: "int \<Rightarrow> string" where
  "showInt i = (if i < 0 then CHR ''-'' # showNat (nat (- i)) else showNat (nat i))"

text \<open>
  \<open>parseInt(s, 10)\<close> skips leading white space, reads an optional sign and then the longest
  run of decimal digits; without a digit the result is \<open>NaN\<close>, here \<open>None\<close>.
\<close>

definition digitVal :: "char \<Rightarrow> nat option" where
  "digitVal c = map_of (zip ''0123456789'' [0, 1, 2, 3, 4, 5, 6, 7, 8, 9]) c"

fun parseDigits :: "nat \<Rightarrow> string \<Rightarrow> nat" where
  "parseDigits acc [] = acc"
| "parseDigits acc (c # cs) =
     (case digitVal c of None \<Rightarrow> acc | Some d \<Rightarrow> parseDigits (10 * acc + d) cs)"

definition unsignedInt :: "string \<Rightarrow> nat option" where
  "unsignedInt s = (case s of
                      [] \<Rightarrow> None
                    | c # cs \<Rightarrow> (case digitVal c of None \<Rightarrow> None | Some d \<Rightarrow> Some (parseDigits 0 s)))"

definition parseInt :: "string \<Rightarrow> int option" where
  "parseInt s =
     (case dropWhile isWhiteSpace s of
        [] \<Rightarrow> None
      | c # cs \<Rightarrow>
          if c = CHR ''-'' then map_option (\<lambda>n. - int n) (unsignedInt cs)
          else if c = CHR ''+'' then map_option int (unsignedInt cs)
          else map_option int (unsignedInt (c # cs)))"

text \<open>
  \<open>s.split(sep)\<close> for a non-empty separator: the pieces between successive occurrences of
  \<open>sep\<close>, found from left to right without overlap. \<open>s.split(sep, n)\<close> keeps the first \<open>n\<close>
  pieces and discards the rest.
\<close>

fun splitAcc :: "string \<Rightarrow> string \<Rightarrow> string \<Rightarrow> string list" where
  "splitAcc sep acc [] = [rev acc]"
| "splitAcc sep acc (c # cs) =
     (if sep \<noteq> [] \<and> take (length sep) (c # cs) = sep
      then rev acc # splitAcc sep [] (drop (length sep - 1) cs)
      else splitAcc sep (c # acc) cs)"

definition split :: "string \<Rightarrow> string \<Rightarrow> string list" where
  "split sep s = splitAcc sep [] s"

definition splitLimit :: "string \<Rightarrow> nat \<Rightarrow> string \<Rightarrow> string list" where
  "splitLimit sep n s = take n (split sep s)"

section \<open>JSON text and base64url\<close>

text \<open>
  \<open>JSON.stringify\<close> of a string: quotes around it, a backslash before a quote or a
  backslash, the short escapes for BS, TAB, LF, FF and CR, and \<open>\u00XX\<close> for the other
  characters below U+0020.
\<close>

definition jsonChar :: "char \<Rightarrow> string" where
  "jsonChar c = (let n = of_char c :: nat in
     if n = 34 then [CHR 0x5C, CHR 0x22]
     else if n = 92 then [CHR 0x5C, CHR 0x5C]
     else if n = 8 then [CHR 0x5C, CHR ''b'']
     else if n = 9 then [CHR 0x5C, CHR ''t'']
     else if n = 10 then [CHR 0x5C, CHR ''n'']
     else if n = 12 then [CHR 0x5C, CHR ''f'']
     else if n = 13 then [CHR 0x5C, CHR ''r'']
     else if n < 32 then [CHR 0x5C, CHR ''u'', CHR ''0'', CHR ''0'', hexDigit (n div 16), hexDigit (n mod 16)]
     else [c])"

definition jsonString :: "string \<Rightarrow> string" where
  "jsonString s = CHR 0x22 # concat (map jsonChar s) @ [CHR 0x22]"

fun joinWith :: "string \<Rightarrow> string list \<Rightarrow> string" where
  "joinWith sep [] = []"
| "joinWith sep [x] = x"
| "joinWith sep (x # y # ys) = x @ sep @ joinWith sep (y # ys)"

text \<open>\<open>buf.toString('base64url')\<close>: the URL-safe alphabet, no padding.\<close>

definition b64Char :: "nat \<Rightarrow> char" where
  "b64Char n = ''ABCDEFGHIJKLMNOPQRSTUVWXYZabcdefghijklmnopqrstuvwxyz0123456789-_'' ! n"

fun base64url :: "byte list \<Rightarrow> string" where
  "base64url (a # b # c # rest) =
     (let n = unat a * 65536 + unat b * 256 + unat c
      in [b64Char (n div 262144), b64Char (n div 4096 mod 64), b64Char (n div 64 mod 64), b64Char (n mod 64)])
     @ base64url rest"
| "base64url [a, b] =
     (let n = unat a * 1024 + unat b * 4
      in [b64Char (n div 4096), b64Char (n div 64 mod 64), b64Char (n mod 64)])"
| "base64url [a] = (let n = unat a * 16 in [b64Char (n div 64), b64Char (n mod 64)])"
| "base64url [] = []"

section \<open>Macaroons (macaroon.js)\<close>

text \<open>
  The options of \<open>createMacaroon\<close>, the request context of \<open>verifyMacaroon\<close> and the macaroon
  itself. Record fields carry a prefix: \<open>opt_endpoint\<close> is \<open>opts.endpoint\<close>, \<open>ctx_endpoint\<close> is
  \<open>context.endpoint\<close>, \<open>mac_id\<close> is \<open>macaroon.id\<close>.
\<close>

record macaroon_opts =
  opt_paymentHash :: "string option"
  opt_expiresAt :: "int option"
  opt_endpoint :: "string option"
  opt_method :: "string option"
  opt_ip :: "string option"

record macaroon_payload =
  mac_id :: string
  mac_caveats :: "string list"
  mac_signature :: string

record macaroon_obj = macaroon_payload +
  mac_raw :: string

record verify_context =
  ctx_endpoint :: "string option"
  ctx_method :: "string option"
  ctx_ip :: "string option"

record verify_result =
  valid :: bool
  error :: "string option"
  res_paymentHash :: "string option"

definition strOf :: "string option \<Rightarrow> string" where
  "strOf v = (case v of None \<Rightarrow> ''undefined'' | Some s \<Rightarrow> s)"

text \<open>
  The chained HMAC of both \<open>createMacaroon\<close> and \<open>verifyMacaroon\<close>: \<open>HMAC(secret, id)\<close>, then
  each caveat folded in with the previous digest as the key.
\<close>

definition chainHmac :: "string \<Rightarrow> string \<Rightarrow> string list \<Rightarrow> byte list" where
  "chainHmac secret ident cavs =
     foldl (\<lambda>sig caveat. hmac_sha256 sig (utf8 caveat)) (hmac_sha256 (utf8 secret) (utf8 ident)) cavs"

definition stringify :: "macaroon_payload \<Rightarrow> string" where
  "stringify p = ''{\"id\":'' @ jsonString (mac_id p) @ '',\"caveats\":['' @
                 joinWith '','' (map jsonString (mac_caveats p)) @ ''],\"signature\":'' @
                 jsonString (mac_signature p) @ ''}''"

definition buildCaveats :: "macaroon_opts \<Rightarrow> string list" where
  "buildCaveats opts =
     (case opt_expiresAt opts of
        None \<Rightarrow> []
      | Some e \<Rightarrow> if e \<noteq> 0 then [''expires_at = '' @ showInt e] else [])
     @ (if truthy (opt_endpoint opts) then [''endpoint = '' @ strOf (opt_endpoint opts)] else [])
     @ (if truthy (opt_method opts) then [''method = '' @ strOf (opt_method opts)] else [])
     @ (if truthy (opt_ip opts) then [''ip = '' @ strOf (opt_ip opts)] else [])"

definition createMacaroon :: "string \<Rightarrow> macaroon_opts \<Rightarrow> js_error + macaroon_obj" where
  "createMacaroon secret opts =
     (if secret = [] then Inl (Error ''Macaroon secret is required'')
      else if \<not> truthy (opt_paymentHash opts) then Inl (Error ''paymentHash is required for macaroon'')
      else
        let ident = strOf (opt_paymentHash opts);
            cavs = buildCaveats opts;
            sig = chainHmac secret ident cavs;
            signature = hexEncode sig;
            payload = \<lparr>mac_id = ident, mac_caveats = cavs, mac_signature = signature\<rparr>
        in Inr \<lparr>mac_id = ident, mac_caveats = cavs, mac_signature = signature,
                 mac_raw = base64url (utf8 (stringify payload))\<rparr>)"

text \<open>
  The loop over the caveats of \<open>verifyMacaroon\<close>. \<open>now\<close> is \<open>Date.now()\<close> in milliseconds;
  \<open>Date.now() / 1000 > expiresAt\<close> is \<open>now > 1000 * expiresAt\<close>, and false when \<open>parseInt\<close>
  gives \<open>NaN\<close>.
\<close>

definition reject :: "string \<Rightarrow> string \<Rightarrow> verify_result" where
  "reject msg ident = \<lparr>valid = False, error = Some msg, res_paymentHash = Some ident\<rparr>"

fun checkCaveats :: "verify_context \<Rightarrow> int \<Rightarrow> string \<Rightarrow> string list \<Rightarrow> verify_result" where
  "checkCaveats ctx now ident [] = \<lparr>valid = True, error = None, res_paymentHash = Some ident\<rparr>"
| "checkCaveats ctx now ident (caveat # rest) =
     (case splitLimit '' = '' 2 caveat of
        [key, val] \<Rightarrow>
          if key = [] then reject (''Malformed caveat: '' @ caveat) ident
          else if trim key = ''expires_at'' then
            (case parseInt (trim val) of
               None \<Rightarrow> checkCaveats ctx now ident rest
             | Some expiresAt \<Rightarrow>
                 if now > 1000 * expiresAt then reject ''Macaroon expired'' ident
                 else checkCaveats ctx now ident rest)
          else if trim key = ''endpoint'' then
            (if truthy (ctx_endpoint ctx) \<and> strOf (ctx_endpoint ctx) \<noteq> trim val
             then reject (''Endpoint mismatch: expected '' @ trim val @ '', got '' @ strOf (ctx_endpoint ctx)) ident
             else checkCaveats ctx now ident rest)
          else if trim key = ''method'' then
            (if truthy (ctx_method ctx) \<and> toUpperCase (strOf (ctx_method ctx)) \<noteq> toUpperCase (trim val)
             then reject (''Method mismatch: expected '' @ trim val @ '', got '' @ strOf (ctx_method ctx)) ident
             else checkCaveats ctx now ident rest)
          else if trim key = ''ip'' then
            (if truthy (ctx_ip ctx) \<and> strOf (ctx_ip ctx) \<noteq> trim val
             then reject (''IP mismatch: expected '' @ trim val @ '', got '' @ strOf (ctx_ip ctx)) ident
             else checkCaveats ctx now ident rest)
          else checkCaveats ctx now ident rest
      | _ \<Rightarrow> reject (''Malformed caveat: '' @ caveat) ident)"

text \<open>
  \<open>verifyMacaroon(secret, macaroon, context)\<close>. The macaroon is \<open>None\<close> for \<open>null\<close>. The result
  is \<open>Inl\<close> when the call throws: \<open>timingSafeEqual\<close> is not inside a \<open>try\<close>.
\<close>

definition verifyMacaroon ::
  "string \<Rightarrow> macaroon_payload option \<Rightarrow> verify_context \<Rightarrow> int \<Rightarrow> js_error + verify_result" where
  "verifyMacaroon secret mac ctx now =
     (case mac of
        None \<Rightarrow> Inr \<lparr>valid = False, error = Some ''Invalid macaroon structure'', res_paymentHash = None\<rparr>
      | Some m \<Rightarrow>
          if mac_id m = [] \<or> mac_signature m = []
          then Inr \<lparr>valid = False, error = Some ''Invalid macaroon structure'', res_paymentHash = None\<rparr>
          else
            let expectedSig = hexEncode (chainHmac secret (mac_id m) (mac_caveats m))
            in (case timingSafeEqual (hexDecode (mac_signature m)) (hexDecode expectedSig) of
                  Inl e \<Rightarrow> Inl e
                | Inr same \<Rightarrow>
                    if \<not> same then Inr (reject ''Invalid macaroon signature'' (mac_id m))
                    else Inr (checkCaveats ctx now (mac_id m) (mac_caveats m))))"

text \<open>
  \<open>verifyPreimage(preimage, paymentHash)\<close>: the \<open>try\<close> turns the \<open>RangeError\<close> of
  \<open>timingSafeEqual\<close> into \<open>false\<close>.
\<close>

definition verifyPreimage :: "string \<Rightarrow> string \<Rightarrow> bool" where
  "verifyPreimage pre paymentHash =
     (if pre = [] \<or> paymentHash = [] then False
      else
        let computed = hexEncode (sha256 (hexDecode pre))
        in (case timingSafeEqual (hexDecode computed) (hexDecode paymentHash) of
              Inl e \<Rightarrow> False
            | Inr same \<Rightarrow> same))"

text \<open>
  \<open>decodeMacaroon(raw)\<close>. \<open>JSON.parse(Buffer.from(raw, 'base64url').toString('utf8'))\<close> is
  the parameter \<open>parse\<close>, \<open>None\<close> when it throws. A parsed value is a \<open>json\<close>; an object lists
  its properties, and a property that is absent reads as \<open>undefined\<close> (\<open>None\<close>). Reading a
  property of \<open>null\<close> throws a \<open>TypeError\<close>, which the \<open>catch\<close> turns into \<open>null\<close>.
\<close>

datatype json = JNull | JBool bool | JNumber int | JString string | JArray "json list"
  | JObject "(string \<times> json) list"

fun getProp :: "json \<Rightarrow> string \<Rightarrow> js_error + json option" where
  "getProp JNull k = Inl (TypeError ''Cannot read properties of null'')"
| "getProp (JObject kvs) k = Inr (map_of kvs k)"
| "getProp _ k = Inr None"

fun jsTruthy :: "json option \<Rightarrow> bool" where
  "jsTruthy None = False"
| "jsTruthy (Some JNull) = False"
| "jsTruthy (Some (JBool b)) = b"
| "jsTruthy (Some (JNumber n)) = (n \<noteq> 0)"
| "jsTruthy (Some (JString s)) = (s \<noteq> [])"
| "jsTruthy (Some (JArray xs)) = True"
| "jsTruthy (Some (JObject kvs)) = True"

fun isArray :: "json option \<Rightarrow> bool" where
  "isArray (Some (JArray xs)) = True"
| "isArray _ = False"

definition decodeMacaroon :: "(string \<Rightarrow> json option) \<Rightarrow> string \<Rightarrow> json option" where
  "decodeMacaroon parse raw =
     (case parse raw of
        None \<Rightarrow> None
      | Some parsed \<Rightarrow>
          (case (getProp parsed ''id'', getProp parsed ''signature'', getProp parsed ''caveats'') of
             (Inr i, Inr s, Inr c) \<Rightarrow>
               if \<not> jsTruthy i \<or> \<not> jsTruthy s \<or> \<not> isArray c then None else Some parsed
           | _ \<Rightarrow> None))"




section \<open>Payment statistics (stats.js)\<close>

text \<open>
  \<open>TollStats\<close>. The \<open>endpoints\<close> map is an association list in insertion order, \<open>payers\<close> is
  a set, amounts are integers. \<open>now\<close> is \<open>Date.now()\<close>.
\<close>

record endpoint_stats =
  revenue :: int
  requests :: nat
  paid :: nat
  free :: nat

record payment =
  pay_endpoint :: string
  pay_amountSats :: int
  pay_payerId :: string
  pay_paymentHash :: "string option"
  pay_timestamp :: int

record toll_stats =
  maxRecent :: nat
  totalRevenue :: int
  totalRequests :: nat
  totalPaid :: nat
  endpoints :: "(string \<times> endpoint_stats) list"
  payers :: "string set"
  recentPayments :: "payment list"

definition newTollStats :: "nat option \<Rightarrow> toll_stats" where
  "newTollStats optMaxRecent =
     \<lparr>maxRecent = (case optMaxRecent of None \<Rightarrow> 100 | Some n \<Rightarrow> if n = 0 then 100 else n),
      totalRevenue = 0, totalRequests = 0, totalPaid = 0,
      endpoints = [], payers = {}, recentPayments = []\<rparr>"

text \<open>\<open>xs.slice(-n)\<close>: the last \<open>n\<close> elements, and the whole array for \<open>n = 0\<close>.\<close>

definition sliceLast :: "nat \<Rightarrow> 'a list \<Rightarrow> 'a list" where
  "sliceLast n xs = (if n = 0 then xs else drop (length xs - n) xs)"

text \<open>\<open>TollStats.record(endpoint, paid, amountSats, payerId, paymentHash)\<close>.\<close>

definition stats_record ::
  "string \<Rightarrow> bool \<Rightarrow> int \<Rightarrow> string option \<Rightarrow> string option \<Rightarrow> int \<Rightarrow> toll_stats \<Rightarrow> toll_stats" where
  "stats_record endpoint isPaid amountSats payerId paymentHash now s =
     (let ep0 = (case map_of (endpoints s) endpoint of
                   None \<Rightarrow> \<lparr>revenue = 0, requests = 0, paid = 0, free = 0\<rparr>
                 | Some ep \<Rightarrow> ep);
          ep1 = ep0\<lparr>requests := requests ep0 + 1\<rparr>
      in if isPaid \<and> amountSats > 0 then
           let recent = recentPayments s @
                 [\<lparr>pay_endpoint = endpoint, pay_amountSats = amountSats,
                   pay_payerId = (if truthy payerId then strOf payerId else ''unknown''),
                   pay_paymentHash = (if truthy paymentHash then paymentHash else None),
                   pay_timestamp = now\<rparr>]
           in s\<lparr>totalRequests := totalRequests s + 1,
                totalRevenue := totalRevenue s + amountSats,
                totalPaid := totalPaid s + 1,
                endpoints := AList.update endpoint
                               (ep1\<lparr>revenue := revenue ep1 + amountSats, paid := paid ep1 + 1\<rparr>) (endpoints s),
                payers := (if truthy payerId then insert (strOf payerId) (payers s) else payers s),
                recentPayments := (if length recent > maxRecent s then sliceLast (maxRecent s) recent
                                   else recent)\<rparr>
         else s\<lparr>totalRequests := totalRequests s + 1,
                endpoints := AList.update endpoint (ep1\<lparr>free := free ep1 + 1\<rparr>) (endpoints s)\<rparr>)"

text \<open>One call of \<open>record\<close> with its arguments and the clock reading, and a sequence of calls.\<close>

record record_call =
  rc_endpoint :: string
  rc_paid :: bool
  rc_amountSats :: int
  rc_payerId :: "string option"
  rc_paymentHash :: "string option"
  rc_now :: int

definition applyCall :: "toll_stats \<Rightarrow> record_call \<Rightarrow> toll_stats" where
  "applyCall s c = stats_record (rc_endpoint c) (rc_paid c) (rc_amountSats c) (rc_payerId c)
                     (rc_paymentHash c) (rc_now c) s"

definition afterCalls :: "nat option \<Rightarrow> record_call list \<Rightarrow> toll_stats" where
  "afterCalls optMaxRecent calls = foldl applyCall (newTollStats optMaxRecent) calls"

section \<open>The free tier (middleware.js)\<close>

text \<open>
  \<open>freeTierMap\<close> maps a client id to \<open>{count, windowStart}\<close>. \<open>freeRequests\<close> is
  \<open>routeOpts.freeRequests || 0\<close> and \<open>freeWindowMs\<close> the window that \<open>parseWindow\<close> returned,
  both integers; \<open>now\<close> is \<open>Date.now()\<close>.
\<close>

record free_entry =
  fe_count :: int
  fe_windowStart :: int

definition checkFreeTier ::
  "int \<Rightarrow> int \<Rightarrow> int \<Rightarrow> string \<Rightarrow> (string \<rightharpoonup> free_entry) \<Rightarrow> bool \<times> (string \<rightharpoonup> free_entry)" where
  "checkFreeTier freeRequests freeWindowMs now clientId m =
     (if freeRequests \<le> 0 then (False, m)
      else
        let fresh = \<lparr>fe_count = 0, fe_windowStart = now\<rparr>;
            entry = (case m clientId of
                       None \<Rightarrow> fresh
                     | Some e \<Rightarrow> if now - fe_windowStart e > freeWindowMs then fresh else e);
            m1 = m(clientId \<mapsto> entry)
        in if fe_count entry < freeRequests
           then (True, m1(clientId \<mapsto> entry\<lparr>fe_count := fe_count entry + 1\<rparr>))
           else (False, m1))"








section \<open>The gating middleware (middleware.js)\<close>

record request =
  hdr_authorization :: "string option"
  hdr_x_forwarded_for :: "string option"
  req_ip :: "string option"
  req_remoteAddress :: "string option"
  req_path :: string
  req_url :: string
  req_method :: string

definition getClientId :: "request \<Rightarrow> string" where
  "getClientId req =
     (let forwarded = (case hdr_x_forwarded_for req of
                         None \<Rightarrow> None
                       | Some h \<Rightarrow> (case split '','' h of [] \<Rightarrow> None | x # xs \<Rightarrow> Some (trim x)))
      in if truthy forwarded then strOf forwarded
         else if truthy (req_ip req) then strOf (req_ip req)
         else if truthy (req_remoteAddress req) then strOf (req_remoteAddress req)
         else ''unknown'')"

text \<open>
  The configuration that \<open>createToll\<close> hands to \<open>createMiddleware\<close>. \<open>cfg_bindEndpoint\<close> is
  \<open>bindEndpoint !== false\<close>, \<open>cfg_bindIp\<close> the truth value of \<open>bindIp\<close>, \<open>cfg_onPayment\<close> whether a
  callback is registered.
\<close>

record toll_config =
  cfg_secret :: string
  cfg_defaultSats :: int
  cfg_invoiceExpiry :: int
  cfg_macaroonExpiry :: int
  cfg_bindEndpoint :: bool
  cfg_bindMethod :: bool
  cfg_bindIp :: bool
  cfg_onPayment :: bool

datatype description_opt = DescriptionFn "request \<Rightarrow> string" | DescriptionStr string | NoDescription

record route_opts =
  ro_price :: "(request \<Rightarrow> int) option"
  ro_sats :: "int option"
  ro_description :: description_opt
  ro_freeRequests :: int
  ro_freeWindowMs :: int

definition resolvePrice :: "toll_config \<Rightarrow> route_opts \<Rightarrow> request \<Rightarrow> int" where
  "resolvePrice cfg ro req =
     (case ro_price ro of
        Some f \<Rightarrow> f req
      | None \<Rightarrow> (case ro_sats ro of Some n \<Rightarrow> n | None \<Rightarrow> cfg_defaultSats cfg))"

definition resolveDescription :: "route_opts \<Rightarrow> request \<Rightarrow> string" where
  "resolveDescription ro req =
     (case ro_description ro of
        DescriptionFn f \<Rightarrow> f req
      | DescriptionStr s \<Rightarrow> s
      | NoDescription \<Rightarrow> ''API access: '' @ req_method req @ '' '' @ req_path req)"

text \<open>
  The wallet: \<open>createInvoice({amountSats, description, expiry})\<close> either rejects with a
  message or resolves to a value, \<open>None\<close> for a falsy one. The \<open>invoice\<close> and the
  \<open>paymentHash\<close> of the value are strings where they are present.
\<close>

record invoice_result =
  inv_invoice :: "string option"
  inv_paymentHash :: "string option"

datatype wallet_reply = Rejected string | Resolved "invoice_result option"

text \<open>
  The body of the 402 response (\<open>formatChallengeBody\<close> in l402.js); \<open>cb_instructions\<close>
  lists \<open>step1\<close>, \<open>step2\<close> and \<open>step3\<close>.
\<close>

record challenge_body =
  cb_status :: nat
  cb_message :: string
  cb_paymentHash :: string
  cb_invoice :: string
  cb_macaroon :: string
  cb_amountSats :: int
  cb_description :: "string option"
  cb_protocol :: string
  cb_instructions :: "string list"

definition formatChallengeBody :: "string \<Rightarrow> string \<Rightarrow> string \<Rightarrow> int \<Rightarrow> string \<Rightarrow> challenge_body" where
  "formatChallengeBody invoice mac paymentHash amountSats description =
     \<lparr>cb_status = 402, cb_message = ''Payment Required'', cb_paymentHash = paymentHash,
      cb_invoice = invoice, cb_macaroon = mac, cb_amountSats = amountSats,
      cb_description = (if description = [] then None else Some description),
      cb_protocol = ''L402'',
      cb_instructions = [''Pay the Lightning invoice above'',
                         ''Get the preimage from the payment receipt'',
                         ''Retry the request with header: Authorization: L402 <macaroon>:<preimage>'']\<rparr>"

text \<open>
  What the middleware does with a request: a JSON error response with its status, the 402
  challenge (header, body, and the payment hash and timeout handed to \<open>waitForPayment\<close> when
  a callback is registered), a call of \<open>next()\<close> with \<open>req.toll\<close>, or an exception that leaves
  the function.
\<close>

datatype toll_info = PaidToll string int string | FreeToll string

datatype response =
    JsonError nat string
  | Challenge string challenge_body "(string \<times> int) option"
  | Next toll_info
  | Threw js_error

record toll_state =
  freeTierMap :: "string \<rightharpoonup> free_entry"
  stats :: toll_stats

text \<open>
  A decoded macaroon as \<open>verifyMacaroon\<close> is written for: \<open>id\<close> and \<open>signature\<close> strings,
  \<open>caveats\<close> an array of strings.
\<close>

fun jsonStrings :: "json list \<Rightarrow> string list option" where
  "jsonStrings [] = Some []"
| "jsonStrings (JString s # xs) = map_option ((#) s) (jsonStrings xs)"
| "jsonStrings (_ # xs) = None"

definition typedMacaroon :: "json \<Rightarrow> macaroon_payload option" where
  "typedMacaroon v =
     (case (getProp v ''id'', getProp v ''signature'', getProp v ''caveats'') of
        (Inr (Some (JString i)), Inr (Some (JString s)), Inr (Some (JArray cs))) \<Rightarrow>
          map_option (\<lambda>cavs. \<lparr>mac_id = i, mac_caveats = cavs, mac_signature = s\<rparr>) (jsonStrings cs)
      | _ \<Rightarrow> None)"

text \<open>
  \<open>hmac.update(x)\<close> throws this \<open>TypeError\<close> when \<open>x\<close> is a JSON value other than a string
  (Node's message goes on to say what it received).
\<close>

definition notString :: js_error where
  "notString = TypeError (''The \"data\" argument must be of type string or an instance of Buffer, '' @
                          ''TypedArray, or DataView.'')"

text \<open>
  \<open>verifyMacaroon(secret, decoded, context)\<close> as the middleware calls it, on the value that
  \<open>decodeMacaroon\<close> returned: \<open>id\<close> and \<open>signature\<close> are truthy and \<open>caveats\<close> is an array, and
  nothing more is known of them. On a typed macaroon it is \<open>verifyMacaroon\<close> above. Otherwise
  the statements run in the same order: \<open>update(macaroon.id)\<close> and \<open>update(caveat)\<close> throw
  unless the id and every caveat are strings; then \<open>Buffer.from(macaroon.signature, 'hex')\<close>
  of a value that is not a string is the parameter \<open>bufferFrom\<close> (Node throws a \<open>TypeError\<close>
  for a number or a boolean and builds a buffer from an array or an array-like object);
  then the comparison and the caveats as above.
\<close>

definition verifyDecoded ::
  "(json \<Rightarrow> js_error + byte list) \<Rightarrow> string \<Rightarrow> json \<Rightarrow> verify_context \<Rightarrow> int
   \<Rightarrow> js_error + verify_result" where
  "verifyDecoded bufferFrom secret decoded ctx now =
     (case typedMacaroon decoded of
        Some m \<Rightarrow> verifyMacaroon secret (Some m) ctx now
      | None \<Rightarrow>
          (case (getProp decoded ''id'', getProp decoded ''caveats'', getProp decoded ''signature'') of
             (Inr (Some (JString i)), Inr (Some (JArray cs)), Inr (Some sg)) \<Rightarrow>
               (case jsonStrings cs of
                  None \<Rightarrow> Inl notString
                | Some cavs \<Rightarrow>
                    (case bufferFrom sg of
                       Inl e \<Rightarrow> Inl e
                     | Inr given \<Rightarrow>
                         (case timingSafeEqual given (hexDecode (hexEncode (chainHmac secret i cavs))) of
                            Inl e \<Rightarrow> Inl e
                          | Inr same \<Rightarrow>
                              if \<not> same then Inr (reject ''Invalid macaroon signature'' i)
                              else Inr (checkCaveats ctx now i cavs))))
           | _ \<Rightarrow> Inl notString))"

text \<open>\<open>decoded.id\<close> once \<open>verifyMacaroon\<close> has returned, so that it is a string.\<close>

definition decodedId :: "json \<Rightarrow> string" where
  "decodedId decoded = (case getProp decoded ''id'' of Inr (Some (JString i)) \<Rightarrow> i | _ \<Rightarrow> [])"

text \<open>The message of the 401 for a wrong preimage; its dash is U+2014, here in UTF-8.\<close>

definition invalidPreimage :: string where
  "invalidPreimage = ''Invalid preimage '' @ [CHR 0xE2, CHR 0x80, CHR 0x94] @ '' does not match payment hash''"

text \<open>
  \<open>tollMiddleware(req, res, next)\<close>, in three parts: the block that verifies presented
  credentials, the \<open>try\<close> block that issues the 402 challenge, and the function itself, which
  chooses between them and the free tier. \<open>createInvoice\<close> is the wallet, \<open>parse\<close> the JSON
  reading of \<open>decodeMacaroon\<close>, \<open>now\<close> the clock reading of the request. The state is the
  route's \<open>freeTierMap\<close> and the shared \<open>stats\<close>. The block that verifies credentials stands
  outside the \<open>try\<close>: an exception of \<open>verifyMacaroon\<close> leaves the function.
\<close>

definition withCredentials ::
  "toll_config \<Rightarrow> route_opts \<Rightarrow> (string \<Rightarrow> json option) \<Rightarrow> (json \<Rightarrow> js_error + byte list) \<Rightarrow> int
   \<Rightarrow> request \<Rightarrow> string \<Rightarrow> string \<Rightarrow> l402_creds \<Rightarrow> toll_state \<Rightarrow> response \<times> toll_state" where
  "withCredentials cfg ro parse bufferFrom now req clientId endpoint l402Creds st =
     (case decodeMacaroon parse (macaroon l402Creds) of
        None \<Rightarrow> (JsonError 401 ''Invalid macaroon'', st)
      | Some decoded \<Rightarrow>
          let context = \<lparr>ctx_endpoint = (if cfg_bindEndpoint cfg then Some endpoint else None),
                         ctx_method = (if cfg_bindMethod cfg then Some (req_method req) else None),
                         ctx_ip = (if cfg_bindIp cfg then Some clientId else None)\<rparr>
          in (case verifyDecoded bufferFrom (cfg_secret cfg) decoded context now of
                Inl e \<Rightarrow> (Threw e, st)
              | Inr macResult \<Rightarrow>
                  if \<not> valid macResult then (JsonError 401 (strOf (error macResult)), st)
                  else if \<not> verifyPreimage (preimage l402Creds) (decodedId decoded)
                  then (JsonError 401 invalidPreimage, st)
                  else
                    let price = resolvePrice cfg ro req
                    in (Next (PaidToll (decodedId decoded) price clientId),
                        st\<lparr>stats := stats_record endpoint True price (Some clientId)
                                        (Some (decodedId decoded)) now (stats st)\<rparr>)))"

definition errorMessage :: "js_error \<Rightarrow> string" where
  "errorMessage e = (case e of Error msg \<Rightarrow> msg | RangeError msg \<Rightarrow> msg | TypeError msg \<Rightarrow> msg)"

definition issueChallenge ::
  "toll_config \<Rightarrow> route_opts \<Rightarrow> (int \<Rightarrow> string \<Rightarrow> int \<Rightarrow> wallet_reply) \<Rightarrow> int \<Rightarrow> request \<Rightarrow> string
   \<Rightarrow> string \<Rightarrow> toll_state \<Rightarrow> response \<times> toll_state" where
  "issueChallenge cfg ro createInvoice now req clientId endpoint st =
     (let amountSats = resolvePrice cfg ro req;
          description = resolveDescription ro req
      in case createInvoice amountSats description (cfg_invoiceExpiry cfg) of
           Rejected msg \<Rightarrow> (JsonError 500 (''Toll booth error: '' @ msg), st)
         | Resolved None \<Rightarrow> (JsonError 500 ''Failed to create Lightning invoice'', st)
         | Resolved (Some r) \<Rightarrow>
             if \<not> truthy (inv_invoice r) \<or> \<not> truthy (inv_paymentHash r)
             then (JsonError 500 ''Failed to create Lightning invoice'', st)
             else
               let macaroonOpts =
                     \<lparr>opt_paymentHash = inv_paymentHash r,
                      opt_expiresAt = Some (now div 1000 + cfg_macaroonExpiry cfg),
                      opt_endpoint = (if cfg_bindEndpoint cfg then Some endpoint else None),
                      opt_method = (if cfg_bindMethod cfg then Some (req_method req) else None),
                      opt_ip = (if cfg_bindIp cfg then Some clientId else None)\<rparr>
               in (case createMacaroon (cfg_secret cfg) macaroonOpts of
                     Inl e \<Rightarrow> (JsonError 500 (''Toll booth error: '' @ errorMessage e), st)
                   | Inr mac \<Rightarrow>
                       (Challenge
                          (formatChallenge (strOf (inv_invoice r)) (mac_raw mac))
                          (formatChallengeBody (strOf (inv_invoice r)) (mac_raw mac)
                             (strOf (inv_paymentHash r)) amountSats description)
                          (if cfg_onPayment cfg
                           then Some (strOf (inv_paymentHash r), cfg_invoiceExpiry cfg * 1000)
                           else None),
                        st)))"

definition tollMiddleware ::
  "toll_config \<Rightarrow> route_opts \<Rightarrow> (int \<Rightarrow> string \<Rightarrow> int \<Rightarrow> wallet_reply) \<Rightarrow> (string \<Rightarrow> json option)
   \<Rightarrow> (json \<Rightarrow> js_error + byte list) \<Rightarrow> int \<Rightarrow> request \<Rightarrow> toll_state \<Rightarrow> response \<times> toll_state" where
  "tollMiddleware cfg ro createInvoice parse bufferFrom now req st =
     (let clientId = getClientId req;
          endpoint = (if req_path req \<noteq> [] then req_path req else req_url req)
      in case parseAuthorization (hdr_authorization req) of
           Some l402Creds \<Rightarrow>
             withCredentials cfg ro parse bufferFrom now req clientId endpoint l402Creds st
         | None \<Rightarrow>
             (case checkFreeTier (ro_freeRequests ro) (ro_freeWindowMs ro) now clientId (freeTierMap st) of
                (True, m') \<Rightarrow>
                  (Next (FreeToll clientId),
                   st\<lparr>freeTierMap := m',
                      stats := stats_record endpoint False 0 (Some clientId) None now (stats st)\<rparr>)
              | (False, m') \<Rightarrow>
                  issueChallenge cfg ro createInvoice now req clientId endpoint (st\<lparr>freeTierMap := m'\<rparr>)))"


section \<open>Invariants\<close>



section \<open>Properties of the string functions\<close>

lemma trim_id:
  assumes "s \<noteq> []" "\<not> isWhiteSpace (hd s)" "\<not> isWhiteSpace (last s)"
  shows "trim s = s"
proof -
  from assms have a: "dropWhile isWhiteSpace s = s"
    by (cases s) auto
  from assms have "rev s \<noteq> []" "\<not> isWhiteSpace (hd (rev s))"
    by (simp_all add: hd_rev)
  then have "dropWhile isWhiteSpace (rev s) = rev s"
    by (cases "rev s") auto
  with a show ?thesis by (simp add: trim_def)
qed

lemma indexOf_append_fresh:
  "c \<notin> set m \<Longrightarrow> indexOf c (m @ c # p) = Some (length m)"
  by (induction m) auto

lemma indexOf_None_iff: "indexOf c s = None \<longleftrightarrow> c \<notin> set s"
  by (induction s) auto

lemma indexOf_Some_split:
  "indexOf c s = Some i \<Longrightarrow> c \<notin> set (take i s) \<and> s = take i s @ c # drop (Suc i) s"
proof (induction s arbitrary: i)
  case Nil
  then show ?case by simp
next
  case (Cons x xs)
  show ?case
  proof (cases "x = c")
    case True
    with Cons.prems show ?thesis by simp
  next
    case False
    with Cons.prems obtain j where j: "indexOf c xs = Some j" "i = Suc j"
      by auto
    from Cons.IH [OF j(1)] False j(2) show ?thesis by simp
  qed
qed

section \<open>Authorization parsing\<close>

lemma lower_scheme: "toLowerCase ''L402 '' = ''l402 ''"
  by (simp add: toLowerCase_def lowerChar_def)

lemma not_ws_L: "\<not> isWhiteSpace CHR ''L''"
  by (simp add: isWhiteSpace_def)

lemma parse_wellformed:
  assumes "m \<noteq> []" "p \<noteq> []" "CHR '':'' \<notin> set m"
    and "\<not> isWhiteSpace (hd m)" "\<not> isWhiteSpace (last p)"
  shows "parseAuthorization (Some (''L402 '' @ m @ '':'' @ p)) = Some \<lparr>macaroon = m, preimage = p\<rparr>"
proof -
  define c where "c = m @ '':'' @ p"
  define h where "h = ''L402 '' @ c"
  have hne: "h \<noteq> []"
    by (simp add: h_def)
  have t1: "trim h = h"
    using assms not_ws_L unfolding h_def c_def by (intro trim_id) simp_all
  have pre: "startsWith (toLowerCase h) ''l402 ''"
    using lower_scheme by (simp add: startsWith_def toLowerCase_def h_def)
  have d: "drop 5 h = c"
    by (simp add: h_def)
  have t2: "trim c = c"
    using assms unfolding c_def by (intro trim_id) simp_all
  have i: "indexOf CHR '':'' c = Some (length m)"
    using indexOf_append_fresh [OF assms(3), of p] by (simp add: c_def)
  have tk: "take (length m) c = m" "drop (Suc (length m)) c = p"
    by (simp_all add: c_def)
  have "parseAuthorization (Some h) = Some \<lparr>macaroon = m, preimage = p\<rparr>"
    using assms(1,2) by (simp add: parseAuthorization_def hne t1 pre d t2 i tk)
  then show ?thesis
    by (simp add: h_def c_def)
qed

lemma parse_only_wellformed:
  assumes "parseAuthorization h = Some r"
  shows "macaroon r \<noteq> [] \<and> preimage r \<noteq> [] \<and> CHR '':'' \<notin> set (macaroon r) \<and>
         (\<exists>s. h = Some s \<and> toLowerCase (take 5 (trim s)) = ''l402 '' \<and>
              trim (drop 5 (trim s)) = macaroon r @ '':'' @ preimage r)"
proof -
  from assms obtain s where s: "h = Some s"
    by (cases h) (auto simp: parseAuthorization_def)
  let ?c = "trim (drop 5 (trim s))"
  from assms s have pre: "startsWith (toLowerCase (trim s)) ''l402 ''"
    by (auto simp: parseAuthorization_def Let_def split: if_splits)
  from assms s obtain i where i: "indexOf CHR '':'' ?c = Some i"
    by (auto simp: parseAuthorization_def Let_def split: if_splits option.splits)
  from assms s pre i have r: "take i ?c \<noteq> []" "drop (Suc i) ?c \<noteq> []"
    "r = \<lparr>macaroon = take i ?c, preimage = drop (Suc i) ?c\<rparr>"
    by (auto simp: parseAuthorization_def Let_def split: if_splits)
  from indexOf_Some_split [OF i] have sp: "CHR '':'' \<notin> set (take i ?c)"
    "?c = take i ?c @ CHR '':'' # drop (Suc i) ?c"
    by simp_all
  have "length ''l402 '' = 5"
    by simp
  with pre have "toLowerCase (take 5 (trim s)) = ''l402 ''"
    unfolding startsWith_def toLowerCase_def take_map by metis
  with r sp s show ?thesis
    by simp
qed

text \<open>
  C6 (as amended). For non-empty \<open>m\<close> and \<open>p\<close>, where \<open>m\<close> holds no colon, \<open>m\<close> does not start
  with white space and \<open>p\<close> does not end with white space, parsing \<open>"L402 " + m + ":" + p\<close>
  returns \<open>{macaroon: m, preimage: p}\<close>. Conversely every header that parses is, once
  trimmed, the scheme (in any letter case) and a space followed by credentials that, once
  trimmed, are a non-empty colon-free macaroon half, a colon and a non-empty preimage half:
  a header without the scheme, without a colon, or with an empty half yields \<open>null\<close>.
\<close>

theorem parseAuthorization_left_inverse:
  "(m \<noteq> [] \<and> p \<noteq> [] \<and> CHR '':'' \<notin> set m \<and> \<not> isWhiteSpace (hd m) \<and> \<not> isWhiteSpace (last p)
      \<longrightarrow> parseAuthorization (Some (''L402 '' @ m @ '':'' @ p)) = Some \<lparr>macaroon = m, preimage = p\<rparr>)
   \<and> (\<forall>r. parseAuthorization h = Some r \<longrightarrow>
          macaroon r \<noteq> [] \<and> preimage r \<noteq> [] \<and> CHR '':'' \<notin> set (macaroon r) \<and>
          (\<exists>s. h = Some s \<and> toLowerCase (take 5 (trim s)) = ''l402 '' \<and>
               trim (drop 5 (trim s)) = macaroon r @ '':'' @ preimage r))"
  using parse_wellformed parse_only_wellformed by blast

theorem parseAuthorization_left_inverse_witness:
  "parseAuthorization (Some ''L402 abc:def'') = Some \<lparr>macaroon = ''abc'', preimage = ''def''\<rparr>
   \<and> toLowerCase (take 5 (trim ''L402 abc:def'')) = ''l402 ''
   \<and> trim (drop 5 (trim ''L402 abc:def'')) = ''abc:def''"
proof -
  have ws: "\<not> isWhiteSpace (hd ''abc'')" "\<not> isWhiteSpace (last ''def'')"
    by (simp_all add: isWhiteSpace_def)
  have a: "parseAuthorization (Some ''L402 abc:def'') = Some \<lparr>macaroon = ''abc'', preimage = ''def''\<rparr>"
    using ws parseAuthorization_left_inverse [of "''abc''" "''def''"] by simp
  with parseAuthorization_left_inverse [of "[]" "[]" "Some ''L402 abc:def''"] show ?thesis
    by simp
qed

lemma parseAuthorization_examples:
  "parseAuthorization None = None"
  "parseAuthorization (Some ''L402 abc'') = None"
  "parseAuthorization (Some ''L402 :def'') = None"
  "parseAuthorization (Some ''L402 abc:'') = None"
  "parseAuthorization (Some ''Basic abc:def'') = None"
  "parseAuthorization (Some ''l402 abc:def:g'') = Some \<lparr>macaroon = ''abc'', preimage = ''def:g''\<rparr>"
  by (simp_all add: parseAuthorization_def trim_def isWhiteSpace_def startsWith_def toLowerCase_def
      lowerChar_def Let_def)

text \<open>
  The claim as first stated fails when \<open>m\<close> starts with white space: the credentials are
  trimmed, so the parsed macaroon half is \<open>"a"\<close> and not \<open>" a"\<close>.
\<close>

theorem parseAuthorization_trims_counterexample:
  "parseAuthorization (Some (''L402 '' @ '' a'' @ '':'' @ ''b'')) \<noteq> Some \<lparr>macaroon = '' a'', preimage = ''b''\<rparr>"
  by (simp add: parseAuthorization_def trim_def isWhiteSpace_def startsWith_def toLowerCase_def
      lowerChar_def Let_def)

section \<open>Properties of the byte functions\<close>

lemma length_state_bytes: "length (state_bytes s) = 32"
  by (cases s rule: state_bytes.cases) (simp add: u32_bytes_def)

lemma length_sha256: "length (sha256 m) = 32"
  by (simp add: sha256_def Let_def length_state_bytes)


lemma unhex_table: "map (\<lambda>i. unhex (hexDigit i)) [0..<16] = map Some [0..<16]"
  by (simp add: upt_conv_Cons unhex_def hexDigit_def)

lemma unhex_hexDigit:
  assumes "n < 16"
  shows "unhex (hexDigit n) = Some n"
proof -
  from assms have "unhex (hexDigit n) = map (\<lambda>i. unhex (hexDigit i)) [0..<16] ! n"
    by simp
  also have "\<dots> = map Some [0..<16] ! n"
    by (simp only: unhex_table)
  also from assms have "\<dots> = Some n"
    by simp
  finally show ?thesis .
qed

lemma byte_nibbles: "(of_nat (16 * (unat b div 16) + unat b mod 16) :: byte) = b"
  by simp

lemma unat_byte_less: "unat (b :: byte) < 256"
  using unsigned_less [of b, where ?'a = nat] by simp

lemma hexDecode_hexByte: "hexDecode (hexByte b @ s) = b # hexDecode s"
proof -
  have hi: "unat b div 16 < 16"
    using unat_byte_less [of b] by simp
  have lo: "unat b mod 16 < 16"
    by simp
  show ?thesis
    unfolding hexByte_def
    by (simp add: unhex_hexDigit [OF hi] unhex_hexDigit [OF lo] byte_nibbles
        del: of_nat_add of_nat_mult)
qed

lemma hexDecode_hexEncode_append: "hexDecode (hexEncode bs @ s) = bs @ hexDecode s"
  by (induction bs) (simp_all add: hexEncode_def hexDecode_hexByte)

lemma hexDecode_hexEncode: "hexDecode (hexEncode bs) = bs"
  using hexDecode_hexEncode_append [of bs "[]"] by simp




section \<open>Numbers and splitting: properties\<close>

declare showNat.simps [simp del]

















section \<open>Minting and verifying\<close>
















section \<open>Test vectors, evaluated in the logic\<close>

lemma replicate_numeral: "replicate (numeral k) x = x # replicate (pred_numeral k) x"
  by (simp add: numeral_eq_Suc)


lemma sha256_one_block:
  assumes "be32 (sha256_pad m) = b" "length b = 16"
  shows "sha256 m = state_bytes (compress sha256_h0 b)"
  using assms by (simp add: sha256_def)


lemmas round_defs = temp1_def temp2_def next_word_def ch_def maj_def bsig0_def bsig1_def
  ssig0_def ssig1_def rotr_def shr_def add32_def not32_def

lemma compress_empty:
  "compress sha256_h0 [0x80000000, 0, 0, 0, 0, 0, 0, 0, 0, 0, 0, 0, 0, 0, 0, 0]
   = (0xe3b0c442, 0x98fc1c14, 0x9afbf4c8, 0x996fb924, 0x27ae41e4, 0x649b934c, 0xa495991b, 0x7852b855)"
  by (simp add: compress_def sha256_k_def sha256_h0_def round_defs)

lemma sha256_empty:
  "hexEncode (sha256 []) = ''e3b0c44298fc1c149afbf4c8996fb92427ae41e4649b934ca495991b7852b855''"
proof -
  have "be32 (sha256_pad []) = [0x80000000, 0, 0, 0, 0, 0, 0, 0, 0, 0, 0, 0, 0, 0, 0, 0]"
    by (simp add: sha256_pad_def u64_bytes_def u32_bytes_def replicate_numeral)
  from sha256_one_block [OF this] show ?thesis
    by (simp add: compress_empty u32_bytes_def hexEncode_def hexByte_def hexDigit_def)
qed








section \<open>Signatures and preimages\<close>




text \<open>
  C3 (as amended). \<open>verifyPreimage(preimage, paymentHash)\<close> never throws, and it returns true
  if and only if both strings are non-empty and SHA-256 of the bytes that
  \<open>Buffer.from(preimage, 'hex')\<close> yields equals the bytes that \<open>Buffer.from(paymentHash, 'hex')\<close>
  yields. That decoding stops at the first pair that is not hexadecimal instead of failing.
\<close>

theorem verifyPreimage_iff:
  "verifyPreimage pre paymentHash
   = (pre \<noteq> [] \<and> paymentHash \<noteq> [] \<and> sha256 (hexDecode pre) = hexDecode paymentHash)"
proof (cases "length (hexDecode paymentHash) = 32")
  case True
  then show ?thesis
    by (auto simp: verifyPreimage_def hexDecode_hexEncode timingSafeEqual_def length_sha256)
next
  case False
  then have "sha256 (hexDecode pre) \<noteq> hexDecode paymentHash"
    using length_sha256 [of "hexDecode pre"] by auto
  with False show ?thesis
    by (simp add: verifyPreimage_def hexDecode_hexEncode timingSafeEqual_def length_sha256)
qed

text \<open>
  The claim as first stated fails for a preimage that is not hexadecimal: \<open>'zz'\<close> decodes to
  the empty buffer, so it is accepted for the hash of the empty string instead of yielding
  false; and the empty preimage, whose bytes do hash to that value, is refused.
\<close>

theorem verifyPreimage_lenient_counterexample:
  "verifyPreimage ''zz'' ''e3b0c44298fc1c149afbf4c8996fb92427ae41e4649b934ca495991b7852b855''
   \<and> hexDecode ''zz'' = []
   \<and> sha256 (hexDecode [])
       = hexDecode ''e3b0c44298fc1c149afbf4c8996fb92427ae41e4649b934ca495991b7852b855''
   \<and> \<not> verifyPreimage [] ''e3b0c44298fc1c149afbf4c8996fb92427ae41e4649b934ca495991b7852b855''"
proof -
  have z: "hexDecode ''zz'' = []"
    by (simp add: unhex_def)
  have "hexDecode (hexEncode (sha256 [])) = sha256 []"
    by (rule hexDecode_hexEncode)
  then have h: "hexDecode ''e3b0c44298fc1c149afbf4c8996fb92427ae41e4649b934ca495991b7852b855'' = sha256 []"
    by (simp only: sha256_empty)
  have 1: "verifyPreimage ''zz'' ''e3b0c44298fc1c149afbf4c8996fb92427ae41e4649b934ca495991b7852b855''"
    by (simp add: verifyPreimage_def z h hexDecode_hexEncode timingSafeEqual_def del: hexDecode.simps)
  have e: "hexDecode [] = []"
    by simp
  have 2: "sha256 (hexDecode [])
       = hexDecode ''e3b0c44298fc1c149afbf4c8996fb92427ae41e4649b934ca495991b7852b855''"
    unfolding e h ..
  have 3: "\<not> verifyPreimage [] ''e3b0c44298fc1c149afbf4c8996fb92427ae41e4649b934ca495991b7852b855''"
    by (simp add: verifyPreimage_def)
  from 1 z 2 3 show ?thesis
    by blast
qed

section \<open>Statistics: totals and endpoints\<close>







text \<open>
  C10. A call of \<open>record\<close> with \<open>paid\<close> true and \<open>amountSats\<close> zero counts one request and one
  free request for the endpoint, and leaves \<open>totalPaid\<close>, \<open>totalRevenue\<close>, the payers and the
  recent payments as they were, as well as the endpoint's revenue and paid count.
\<close>

theorem record_paid_with_zero_amount:
  "totalPaid (stats_record endpoint True 0 payerId paymentHash now s) = totalPaid s \<and>
   totalRevenue (stats_record endpoint True 0 payerId paymentHash now s) = totalRevenue s \<and>
   payers (stats_record endpoint True 0 payerId paymentHash now s) = payers s \<and>
   recentPayments (stats_record endpoint True 0 payerId paymentHash now s) = recentPayments s \<and>
   totalRequests (stats_record endpoint True 0 payerId paymentHash now s) = totalRequests s + 1 \<and>
   map_of (endpoints (stats_record endpoint True 0 payerId paymentHash now s)) endpoint
     = Some (case map_of (endpoints s) endpoint of
               None \<Rightarrow> \<lparr>revenue = 0, requests = 1, paid = 0, free = 1\<rparr>
             | Some ep \<Rightarrow> ep\<lparr>requests := requests ep + 1, free := free ep + 1\<rparr>)"
  by (cases "map_of (endpoints s) endpoint") (simp_all add: stats_record_def Let_def update_conv')

text \<open>The calls of the repository's own test of \<open>TollStats\<close>, and the totals it expects.\<close>

lemma stats_test_run:
  "totalRevenue (afterCalls None
     [\<lparr>rc_endpoint = ''/api/data'', rc_paid = True, rc_amountSats = 100, rc_payerId = Some ''client1'',
        rc_paymentHash = Some ''hash1'', rc_now = 0\<rparr>,
      \<lparr>rc_endpoint = ''/api/data'', rc_paid = True, rc_amountSats = 50, rc_payerId = Some ''client2'',
        rc_paymentHash = Some ''hash2'', rc_now = 0\<rparr>,
      \<lparr>rc_endpoint = ''/api/data'', rc_paid = False, rc_amountSats = 0, rc_payerId = Some ''client3'',
        rc_paymentHash = None, rc_now = 0\<rparr>,
      \<lparr>rc_endpoint = ''/api/other'', rc_paid = True, rc_amountSats = 200, rc_payerId = Some ''client1'',
        rc_paymentHash = Some ''hash3'', rc_now = 0\<rparr>]) = 350"
  by (simp add: afterCalls_def applyCall_def stats_record_def newTollStats_def Let_def truthy_def strOf_def)


section \<open>The free tier: admissions in a sliding interval\<close>


















section \<open>The middleware: credentials and the challenge\<close>

lemma withCredentials_frame:
  "freeTierMap (snd (withCredentials cfg ro parse bufferFrom now req clientId endpoint l402Creds st))
     = freeTierMap st
   \<and> fst (withCredentials cfg ro parse bufferFrom now req clientId endpoint l402Creds st) \<noteq> Next (FreeToll c)
   \<and> fst (withCredentials cfg ro parse bufferFrom now req clientId endpoint l402Creds st)
       \<noteq> Challenge header body watcher
   \<and> withCredentials cfg ro parse bufferFrom now req clientId endpoint l402Creds (st\<lparr>freeTierMap := other\<rparr>)
       = (fst (withCredentials cfg ro parse bufferFrom now req clientId endpoint l402Creds st),
          (snd (withCredentials cfg ro parse bufferFrom now req clientId endpoint l402Creds st))
            \<lparr>freeTierMap := other\<rparr>)"
proof (cases "decodeMacaroon parse (macaroon l402Creds)")
  case None
  then show ?thesis
    by (simp add: withCredentials_def)
next
  case (Some decoded)
  let ?ctx = "\<lparr>ctx_endpoint = (if cfg_bindEndpoint cfg then Some endpoint else None),
               ctx_method = (if cfg_bindMethod cfg then Some (req_method req) else None),
               ctx_ip = (if cfg_bindIp cfg then Some clientId else None)\<rparr>"
  show ?thesis
  proof (cases "verifyDecoded bufferFrom (cfg_secret cfg) decoded ?ctx now")
    case (Inl e)
    with Some show ?thesis
      by (simp add: withCredentials_def)
  next
    case (Inr macResult)
    with Some show ?thesis
      by (simp add: withCredentials_def Let_def)
  qed
qed

text \<open>
  C9. For a request whose \<open>Authorization\<close> header parses as L402 credentials, the
  middleware leaves the free-tier map as it was, whatever the response (a 401, an admission
  as paid, or an exception); it never admits the request as free; and neither the response
  nor the statistics depend on the free-tier map.
\<close>

theorem credentials_bypass_free_tier:
  assumes "parseAuthorization (hdr_authorization req) = Some l402Creds"
  shows "freeTierMap (snd (tollMiddleware cfg ro createInvoice parse bufferFrom now req st)) = freeTierMap st
       \<and> (\<forall>clientId. fst (tollMiddleware cfg ro createInvoice parse bufferFrom now req st) \<noteq> Next (FreeToll clientId))
       \<and> tollMiddleware cfg ro createInvoice parse bufferFrom now req (st\<lparr>freeTierMap := other\<rparr>)
           = (fst (tollMiddleware cfg ro createInvoice parse bufferFrom now req st),
              (snd (tollMiddleware cfg ro createInvoice parse bufferFrom now req st))\<lparr>freeTierMap := other\<rparr>)"
proof -
  from assms have "tollMiddleware cfg ro createInvoice parse bufferFrom now req s
      = withCredentials cfg ro parse bufferFrom now req (getClientId req)
          (if req_path req \<noteq> [] then req_path req else req_url req) l402Creds s" for s
    by (simp add: tollMiddleware_def Let_def)
  with withCredentials_frame show ?thesis
    by simp
qed

theorem credentials_bypass_free_tier_witness:
  "parseAuthorization (Some ''L402 abc:def'') = Some \<lparr>macaroon = ''abc'', preimage = ''def''\<rparr>
   \<and> fst (tollMiddleware
       \<lparr>cfg_secret = ''s'', cfg_defaultSats = 10, cfg_invoiceExpiry = 300, cfg_macaroonExpiry = 3600,
        cfg_bindEndpoint = True, cfg_bindMethod = True, cfg_bindIp = False, cfg_onPayment = False\<rparr>
       \<lparr>ro_price = None, ro_sats = Some 21, ro_description = NoDescription, ro_freeRequests = 3,
        ro_freeWindowMs = 3600000\<rparr>
       (\<lambda>amountSats description expiry. Rejected ''no wallet'') (\<lambda>raw. None) (\<lambda>v. Inl notString) 0
       \<lparr>hdr_authorization = Some ''L402 abc:def'', hdr_x_forwarded_for = None, req_ip = Some ''10.0.0.1'',
        req_remoteAddress = None, req_path = ''/api/data'', req_url = ''/api/data'', req_method = ''GET''\<rparr>
       \<lparr>freeTierMap = Map.empty, stats = newTollStats None\<rparr>)
     = JsonError 401 ''Invalid macaroon''
   \<and> freeTierMap (snd (tollMiddleware
       \<lparr>cfg_secret = ''s'', cfg_defaultSats = 10, cfg_invoiceExpiry = 300, cfg_macaroonExpiry = 3600,
        cfg_bindEndpoint = True, cfg_bindMethod = True, cfg_bindIp = False, cfg_onPayment = False\<rparr>
       \<lparr>ro_price = None, ro_sats = Some 21, ro_description = NoDescription, ro_freeRequests = 3,
        ro_freeWindowMs = 3600000\<rparr>
       (\<lambda>amountSats description expiry. Rejected ''no wallet'') (\<lambda>raw. None) (\<lambda>v. Inl notString) 0
       \<lparr>hdr_authorization = Some ''L402 abc:def'', hdr_x_forwarded_for = None, req_ip = Some ''10.0.0.1'',
        req_remoteAddress = None, req_path = ''/api/data'', req_url = ''/api/data'', req_method = ''GET''\<rparr>
       \<lparr>freeTierMap = Map.empty, stats = newTollStats None\<rparr>))
     = Map.empty"
proof -
  define req where "req = \<lparr>hdr_authorization = Some ''L402 abc:def'', hdr_x_forwarded_for = None,
      req_ip = Some ''10.0.0.1'', req_remoteAddress = None, req_path = ''/api/data'',
      req_url = ''/api/data'', req_method = ''GET''\<rparr>"
  have p: "parseAuthorization (Some ''L402 abc:def'') = Some \<lparr>macaroon = ''abc'', preimage = ''def''\<rparr>"
    by (simp add: parseAuthorization_def trim_def isWhiteSpace_def startsWith_def toLowerCase_def
        lowerChar_def Let_def)
  then have q: "parseAuthorization (hdr_authorization req) = Some \<lparr>macaroon = ''abc'', preimage = ''def''\<rparr>"
    by (simp add: req_def)
  have r: "fst (tollMiddleware cfg ro w (\<lambda>raw. None) bufferFrom now req st) = JsonError 401 ''Invalid macaroon''"
    for cfg ro w bufferFrom now st
    by (simp add: tollMiddleware_def withCredentials_def Let_def q decodeMacaroon_def)
  from credentials_bypass_free_tier [OF q] p r show ?thesis
    unfolding req_def by simp
qed




text \<open>
  The link of C10 to the middleware: credentials admitted on a route whose price resolves to
  zero are recorded by \<open>record(endpoint, true, 0, clientId, id)\<close>.
\<close>

lemma admitted_paid_is_recorded:
  assumes "tollMiddleware cfg ro createInvoice parse bufferFrom now req st = (Next (PaidToll ident price clientId), st')"
  shows "price = resolvePrice cfg ro req \<and> clientId = getClientId req \<and>
         stats st' = stats_record (if req_path req \<noteq> [] then req_path req else req_url req) True price
                       (Some clientId) (Some ident) now (stats st)"
proof -
  have i: "fst (issueChallenge cfg ro createInvoice now req c e s) \<noteq> Next t" for c e s t
    by (simp add: issueChallenge_def Let_def split: wallet_reply.split option.split sum.split)
  have w: "withCredentials cfg ro parse bufferFrom now req c e l st = (Next (PaidToll ident price clientId), st')
      \<Longrightarrow> price = resolvePrice cfg ro req \<and> clientId = c \<and>
          stats st' = stats_record e True price (Some c) (Some ident) now (stats st)" for c e l
    by (auto simp: withCredentials_def Let_def split: option.splits sum.splits if_splits)
  show ?thesis
  proof (cases "parseAuthorization (hdr_authorization req)")
    case (Some l)
    with assms have "withCredentials cfg ro parse bufferFrom now req (getClientId req)
        (if req_path req \<noteq> [] then req_path req else req_url req) l st
        = (Next (PaidToll ident price clientId), st')"
      by (simp add: tollMiddleware_def Let_def)
    from w [OF this] show ?thesis
      by simp
  next
    case None
    obtain ok m' where "checkFreeTier (ro_freeRequests ro) (ro_freeWindowMs ro) now (getClientId req)
        (freeTierMap st) = (ok, m')"
      by (cases "checkFreeTier (ro_freeRequests ro) (ro_freeWindowMs ro) now (getClientId req) (freeTierMap st)")
    with assms None i [of "getClientId req" "if req_path req \<noteq> [] then req_path req else req_url req"
        "st\<lparr>freeTierMap := m'\<rparr>" "PaidToll ident price clientId"]
    show ?thesis
      by (cases ok) (auto simp: tollMiddleware_def Let_def)
  qed
qed


section \<open>Decoding a presented macaroon\<close>

text \<open>
  C7. \<open>decodeMacaroon(raw)\<close> never throws, and on a parsed JSON object it returns that object
  exactly when its \<open>id\<close> and \<open>signature\<close> are truthy and its \<open>caveats\<close> is an array. It does
  not look at the types of \<open>id\<close> and \<open>signature\<close> or at the elements of \<open>caveats\<close>: a number for
  an id, \<open>true\<close> for a signature and an array of numbers for caveats are returned, not \<open>null\<close>.
\<close>

theorem decodeMacaroon_checks_no_types:
  assumes "parse raw = Some (JObject kvs)"
  shows "decodeMacaroon parse raw
         = (if jsTruthy (map_of kvs ''id'') \<and> jsTruthy (map_of kvs ''signature'')
               \<and> isArray (map_of kvs ''caveats'')
            then Some (JObject kvs) else None)"
  using assms by (simp add: decodeMacaroon_def)

theorem decodeMacaroon_checks_no_types_witness:
  "decodeMacaroon
     (\<lambda>raw. if raw = ''eyJpZCI6MSwic2lnbmF0dXJlIjp0cnVlLCJjYXZlYXRzIjpbMV19''
            then Some (JObject [(''id'', JNumber 1), (''signature'', JBool True),
                                (''caveats'', JArray [JNumber 1])])
            else None)
     ''eyJpZCI6MSwic2lnbmF0dXJlIjp0cnVlLCJjYXZlYXRzIjpbMV19''
   = Some (JObject [(''id'', JNumber 1), (''signature'', JBool True), (''caveats'', JArray [JNumber 1])])"
  using decodeMacaroon_checks_no_types
    [of "\<lambda>raw. if raw = ''eyJpZCI6MSwic2lnbmF0dXJlIjp0cnVlLCJjYXZlYXRzIjpbMV19''
               then Some (JObject [(''id'', JNumber 1), (''signature'', JBool True),
                                   (''caveats'', JArray [JNumber 1])])
               else None"
        "''eyJpZCI6MSwic2lnbmF0dXJlIjp0cnVlLCJjYXZlYXRzIjpbMV19''"
        "[(''id'', JNumber 1), (''signature'', JBool True), (''caveats'', JArray [JNumber 1])]"]
  by simp

text \<open>
  What follows in the middleware: the value goes to \<open>verifyMacaroon\<close>, whose
  \<open>update(macaroon.id)\<close> throws a \<open>TypeError\<close> outside every \<open>try\<close>, so the exception leaves
  \<open>tollMiddleware\<close> instead of a 401.
\<close>

lemma untyped_macaroon_throws:
  assumes "hdr_authorization req = Some ''L402 eyJpZCI6MSwic2lnbmF0dXJlIjp0cnVlLCJjYXZlYXRzIjpbMV19:00''"
    and "parse ''eyJpZCI6MSwic2lnbmF0dXJlIjp0cnVlLCJjYXZlYXRzIjpbMV19''
         = Some (JObject [(''id'', JNumber 1), (''signature'', JBool True), (''caveats'', JArray [JNumber 1])])"
  shows "tollMiddleware cfg ro createInvoice parse bufferFrom now req st = (Threw notString, st)"
proof -
  define raw where "raw = ''eyJpZCI6MSwic2lnbmF0dXJlIjp0cnVlLCJjYXZlYXRzIjpbMV19''"
  define obj where "obj = JObject [(''id'', JNumber 1), (''signature'', JBool True),
    (''caveats'', JArray [JNumber 1])]"
  have "parseAuthorization (Some (''L402 '' @ raw @ '':'' @ ''00''))
        = Some \<lparr>macaroon = raw, preimage = ''00''\<rparr>"
    by (rule parse_wellformed) (simp_all add: raw_def isWhiteSpace_def)
  with assms(1) have p: "parseAuthorization (hdr_authorization req) = Some \<lparr>macaroon = raw, preimage = ''00''\<rparr>"
    by (simp add: raw_def)
  from assms(2) have d: "decodeMacaroon parse raw = Some obj"
    by (simp add: decodeMacaroon_def raw_def obj_def)
  have v: "verifyDecoded bufferFrom secret obj ctx now = Inl notString" for secret ctx
    by (simp add: verifyDecoded_def typedMacaroon_def obj_def)
  show ?thesis
    by (simp add: tollMiddleware_def withCredentials_def Let_def p d v)
qed

end
